theory Spec2Isabelle
  imports Complex_Main
begin

section \<open>The Session Client (frontend/contexts/AuthContext.tsx)\<close>

text \<open>
  The provider component keeps three pieces of React state (\<open>user\<close>, \<open>token\<close>,
  \<open>isLoading\<close>) and talks to two outside parties: the device's secure store
  (expo-secure-store) and the backend (through axios). What they answer is an input of
  the model:
  \<^item> every call to the secure store carries an \<open>io\<close> flag saying whether the promise
    resolves or rejects; a rejected call leaves the store as it was, a resolved
    \<open>setItemAsync\<close> binds the key, a resolved \<open>deleteItemAsync\<close> unbinds it (also when
    it was not bound), a resolved \<open>getItemAsync\<close> gives the bound string or \<open>null\<close>;
  \<^item> every call of \<open>login\<close> or \<open>register\<close> carries the answer of the server;
  \<^item> \<open>JSON.stringify\<close> and \<open>JSON.parse\<close> are parameters; \<open>JSON.parse\<close> throws a
    SyntaxError or returns a value, which may be \<open>null\<close>.
  The provider never looks inside the identity it keeps, so the model is parametric in
  what a value other than \<open>null\<close> is (\<open>'u\<close>): a \<open>User\<close> by the annotation of the state,
  whatever JSON value the server or the store held at run time.
  Everything the component does that can be observed from outside (requests, completed
  store calls, state setters, console output) is appended to \<open>events\<close>, in program order.
  A request is recorded with its path below the backend's address, which is a setting of
  the environment.
\<close>

record User =
  user_id :: string
  email :: string
  mobile :: string
  name :: string
  role :: string
  company_id :: "string option"
  company_name :: "string option"

record RegisterData =
  reg_email :: string
  reg_mobile :: string
  reg_password :: string
  reg_name :: string
  reg_role :: string
  reg_company_name :: "string option"

datatype io = Completes | Throws

datatype body = LoginBody string string | RegisterBody RegisterData

datatype event =
    HttpPost string body
  | StoreSet string
  | StoreDelete string
  | SetToken
  | SetUser
  | ConsoleError string

text \<open>
  A JSON value as JavaScript holds it. A number is kept as the text JavaScript prints for
  it (a double and its printed form determine each other; zero prints as \<open>0\<close>).
\<close>

datatype json =
    JNull
  | JBool bool
  | JNum string
  | JStr string
  | JArr "json list"
  | JObj "(string \<times> json) list"

text \<open>Truthiness: \<open>null\<close>, \<open>false\<close>, zero and the empty string are falsy; arrays and objects never.\<close>

fun truthy_json :: "json \<Rightarrow> bool" where
  "truthy_json JNull = False"
| "truthy_json (JBool b) = b"
| "truthy_json (JNum n) = (n \<noteq> ''0'')"
| "truthy_json (JStr s) = (s \<noteq> [])"
| "truthy_json (JArr xs) = True"
| "truthy_json (JObj fs) = True"

text \<open>
  The string conversion that \<open>new Error(message)\<close> applies to its argument: a string is
  itself, an array prints as its items joined by commas, where a \<open>null\<close> item prints as
  nothing, and an object prints as \<open>[object Object]\<close>, through the \<open>toString\<close> it inherits.
  An object that has a property of its own named \<open>toString\<close> hides the inherited one
  behind a value that cannot be called, and the conversion throws a TypeError (\<open>None\<close>).
\<close>

fun toString :: "json \<Rightarrow> string option" and join_items :: "json list \<Rightarrow> string option" where
  "toString JNull = Some ''null''"
| "toString (JBool b) = Some (if b then ''true'' else ''false'')"
| "toString (JNum n) = Some n"
| "toString (JStr s) = Some s"
| "toString (JArr xs) = join_items xs"
| "toString (JObj fs) = (if map_of fs ''toString'' = None then Some ''[object Object]'' else None)"
| "join_items [] = Some []"
| "join_items [x] = (if x = JNull then Some [] else toString x)"
| "join_items (x # y # ys) =
     (case (if x = JNull then Some [] else toString x) of
        None \<Rightarrow> None
      | Some a \<Rightarrow>
          (case join_items (y # ys) of
             None \<Rightarrow> None
           | Some b \<Rightarrow> Some (a @ '','' @ b)))"

text \<open>
  What axios gives back: a 2xx response whose data holds \<open>access_token\<close> and \<open>user\<close>,
  or a rejection, of which the code reads only \<open>error.response?.data?.detail\<close>: \<open>None\<close>
  when there is no response or no such field (\<open>undefined\<close>), and otherwise whatever JSON
  value the server sent there.
\<close>

datatype 'u http_result = Response string 'u | HttpError "json option"

text \<open>What \<open>JSON.parse\<close> does with a text: it throws, or returns a value or \<open>null\<close>.\<close>

datatype 'u parse_result = SyntaxError | Parsed "'u option"

text \<open>
  A promise of type \<open>Promise<void>\<close>: resolved, rejected with an \<open>Error\<close> of that message,
  or rejected with the TypeError of a string conversion that threw.
\<close>

datatype outcome = Resolved | Rejected string | RejectedTypeError

type_synonym secure_store = "string \<rightharpoonup> string"

record 'u client =
  store :: secure_store
  user :: "'u option"
  token :: "string option"
  isLoading :: bool
  events :: "event list"

definition emit :: "event list \<Rightarrow> 'u client \<Rightarrow> 'u client" where
  "emit es c = c\<lparr>events := events c @ es\<rparr>"

text \<open>JavaScript truthiness of a \<open>string | null\<close>: \<open>null\<close> and the empty string are falsy.\<close>

fun truthy :: "string option \<Rightarrow> bool" where
  "truthy None = False"
| "truthy (Some s) = (s \<noteq> [])"

text \<open>\<open>text || fallback\<close> on a \<open>string | undefined\<close>\<close>

definition or_else :: "string option \<Rightarrow> string \<Rightarrow> string" where
  "or_else text fallback = (case text of None \<Rightarrow> fallback | Some d \<Rightarrow> if d = [] then fallback else d)"

text \<open>\<open>throw new Error(detail || fallback)\<close>\<close>

definition throw_Error :: "json option \<Rightarrow> string \<Rightarrow> outcome" where
  "throw_Error detail fallback =
     (case detail of
        None \<Rightarrow> Rejected fallback
      | Some v \<Rightarrow>
          if truthy_json v
          then (case toString v of Some message \<Rightarrow> Rejected message | None \<Rightarrow> RejectedTypeError)
          else Rejected fallback)"

text \<open>
  \<open>JSON.parse\<close> applied to a \<open>string | null\<close>: \<open>null\<close> is converted to the text \<open>null\<close>,
  which parses to \<open>null\<close>.
\<close>

definition JSON_parse :: "(string \<Rightarrow> 'u parse_result) \<Rightarrow> string option \<Rightarrow> 'u parse_result" where
  "JSON_parse parse x = (case x of None \<Rightarrow> Parsed None | Some s \<Rightarrow> parse s)"

text \<open>The state a freshly mounted provider starts from: \<open>useState(null)\<close> twice, \<open>useState(true)\<close>.\<close>

definition mount :: "secure_store \<Rightarrow> 'u client" where
  "mount s = \<lparr>store = s, user = None, token = None, isLoading = True, events = []\<rparr>"

text \<open>A restart of the application: the React state is initial again, the secure store persists.\<close>

definition restart :: "'u client \<Rightarrow> 'u client" where
  "restart c = mount (store c)"

definition loadStoredAuth ::
  "(string \<Rightarrow> 'u parse_result) \<Rightarrow> io \<Rightarrow> io \<Rightarrow> 'u client \<Rightarrow> 'u client" where
  "loadStoredAuth parse r1 r2 c =
     (let finally = (\<lambda>c'. c'\<lparr>isLoading := False\<rparr>);
          caught = (\<lambda>c'. finally (emit [ConsoleError ''Error loading auth:''] c'))
      in case r1 of
           Throws \<Rightarrow> caught c
         | Completes \<Rightarrow>
             (let storedToken = store c ''auth_token'' in
              case r2 of
                Throws \<Rightarrow> caught c
              | Completes \<Rightarrow>
                  (let storedUser = store c ''user_data'' in
                   if truthy storedToken \<and> truthy storedUser then
                     (let c1 = emit [SetToken] (c\<lparr>token := storedToken\<rparr>) in
                      case JSON_parse parse storedUser of
                        SyntaxError \<Rightarrow> caught c1
                      | Parsed v \<Rightarrow> finally (emit [SetUser] (c1\<lparr>user := v\<rparr>)))
                   else finally c)))"

definition login ::
  "('u \<Rightarrow> string) \<Rightarrow> 'u http_result \<Rightarrow> io \<Rightarrow> io \<Rightarrow> string \<Rightarrow> string \<Rightarrow> 'u client
   \<Rightarrow> outcome \<times> 'u client" where
  "login stringify answer w1 w2 login_id password c =
     (let c0 = emit [HttpPost ''/api/auth/login'' (LoginBody login_id password)] c in
      case answer of
        HttpError detail \<Rightarrow> (throw_Error detail ''Login failed'', c0)
      | Response access_token userData \<Rightarrow>
          (case w1 of
             Throws \<Rightarrow> (throw_Error None ''Login failed'', c0)
           | Completes \<Rightarrow>
               (let c1 = emit [StoreSet ''auth_token'']
                           (c0\<lparr>store := (store c0)(''auth_token'' \<mapsto> access_token)\<rparr>) in
                case w2 of
                  Throws \<Rightarrow> (throw_Error None ''Login failed'', c1)
                | Completes \<Rightarrow>
                    (let c2 = emit [StoreSet ''user_data'']
                                (c1\<lparr>store := (store c1)(''user_data'' \<mapsto> stringify userData)\<rparr>)
                     in (Resolved,
                         emit [SetToken, SetUser]
                           (c2\<lparr>token := Some access_token, user := Some userData\<rparr>))))))"

definition register ::
  "('u \<Rightarrow> string) \<Rightarrow> 'u http_result \<Rightarrow> io \<Rightarrow> io \<Rightarrow> RegisterData \<Rightarrow> 'u client
   \<Rightarrow> outcome \<times> 'u client" where
  "register stringify answer w1 w2 data c =
     (let c0 = emit [HttpPost ''/api/auth/register'' (RegisterBody data)] c in
      case answer of
        HttpError detail \<Rightarrow> (throw_Error detail ''Registration failed'', c0)
      | Response access_token userData \<Rightarrow>
          (case w1 of
             Throws \<Rightarrow> (throw_Error None ''Registration failed'', c0)
           | Completes \<Rightarrow>
               (let c1 = emit [StoreSet ''auth_token'']
                           (c0\<lparr>store := (store c0)(''auth_token'' \<mapsto> access_token)\<rparr>) in
                case w2 of
                  Throws \<Rightarrow> (throw_Error None ''Registration failed'', c1)
                | Completes \<Rightarrow>
                    (let c2 = emit [StoreSet ''user_data'']
                                (c1\<lparr>store := (store c1)(''user_data'' \<mapsto> stringify userData)\<rparr>)
                     in (Resolved,
                         emit [SetToken, SetUser]
                           (c2\<lparr>token := Some access_token, user := Some userData\<rparr>))))))"

definition logout :: "io \<Rightarrow> io \<Rightarrow> 'u client \<Rightarrow> outcome \<times> 'u client" where
  "logout d1 d2 c =
     (let caught = (\<lambda>c'. (Resolved, emit [ConsoleError ''Error logging out:''] c')) in
      case d1 of
        Throws \<Rightarrow> caught c
      | Completes \<Rightarrow>
          (let c1 = emit [StoreDelete ''auth_token''] (c\<lparr>store := (store c)(''auth_token'' := None)\<rparr>) in
           case d2 of
             Throws \<Rightarrow> caught c1
           | Completes \<Rightarrow>
               (let c2 = emit [StoreDelete ''user_data'']
                           (c1\<lparr>store := (store c1)(''user_data'' := None)\<rparr>)
                in (Resolved, emit [SetToken, SetUser] (c2\<lparr>token := None, user := None\<rparr>)))))"

text \<open>
  \<open>useAuth\<close>: the context holds \<open>undefined\<close> (here \<open>None\<close>) unless a provider above the
  caller supplies a value (the nearest one, the head of the list, wins); the hook throws
  on \<open>undefined\<close>. \<open>AuthProvider\<close> always supplies its state and its three operations.
\<close>

definition useContext :: "'a option \<Rightarrow> 'a list \<Rightarrow> 'a option" where
  "useContext undefined_value providers =
     (case providers of [] \<Rightarrow> undefined_value | v # _ \<Rightarrow> Some v)"

definition useAuth :: "'a list \<Rightarrow> string + 'a" where
  "useAuth providers =
     (case useContext None providers of
        None \<Rightarrow> Inl ''useAuth must be used within an AuthProvider''
      | Some context \<Rightarrow> Inr context)"

text \<open>
  Sequences of provider operations, each with what the outside answered during it.
\<close>

datatype 'u operation =
    Login "'u http_result" io io string string
  | Register "'u http_result" io io RegisterData
  | Logout io io
  | LoadStoredAuth io io

fun perform ::
  "('u \<Rightarrow> string) \<Rightarrow> (string \<Rightarrow> 'u parse_result) \<Rightarrow> 'u operation \<Rightarrow> 'u client \<Rightarrow> 'u client" where
  "perform stringify parse (Login answer w1 w2 login_id password) c =
     snd (login stringify answer w1 w2 login_id password c)"
| "perform stringify parse (Register answer w1 w2 data) c =
     snd (register stringify answer w1 w2 data c)"
| "perform stringify parse (Logout d1 d2) c = snd (logout d1 d2 c)"
| "perform stringify parse (LoadStoredAuth r1 r2) c = loadStoredAuth parse r1 r2 c"

fun perform_all ::
  "('u \<Rightarrow> string) \<Rightarrow> (string \<Rightarrow> 'u parse_result) \<Rightarrow> 'u operation list \<Rightarrow> 'u client
   \<Rightarrow> 'u client" where
  "perform_all stringify parse [] c = c"
| "perform_all stringify parse (x # xs) c = perform_all stringify parse xs (perform stringify parse x c)"

text \<open>No write to, and no deletion from, the secure store throws during the operation.\<close>

fun writes_complete :: "'u operation \<Rightarrow> bool" where
  "writes_complete (Login answer w1 w2 login_id password) = (w1 = Completes \<and> w2 = Completes)"
| "writes_complete (Register answer w1 w2 data) = (w1 = Completes \<and> w2 = Completes)"
| "writes_complete (Logout d1 d2) = (d1 = Completes \<and> d2 = Completes)"
| "writes_complete (LoadStoredAuth r1 r2) = True"

text \<open>The two entries are both there or both missing.\<close>

definition paired :: "secure_store \<Rightarrow> bool" where
  "paired s = ((s ''auth_token'' = None) = (s ''user_data'' = None))"


text \<open>The events an operation added, given the state before and the state after.\<close>

definition added :: "'u client \<Rightarrow> 'u client \<Rightarrow> event list" where
  "added c c' = drop (length (events c)) (events c')"

section \<open>The dashboard screen\<close>

text \<open>
  Of the screen, the model keeps the statistics request and the statistics grid; the
  user card, the company card and the quick actions do not read the statistics. Counters
  are integers; \<open>total_revenue\<close> is a real number and \<open>toFixed(2)\<close>, which prints it, is a
  parameter.
\<close>

record Stats =
  total_orders :: int
  pending_orders :: int
  completed_orders :: int
  total_products :: int
  low_stock_products :: int
  total_vendors :: int
  pending_payments :: int
  total_revenue :: real

datatype shown = Num int | Str string

record StatCard =
  title :: string
  shown_value :: shown
  icon :: string
  color :: string

text \<open>\<open>stats?.field || 0\<close>\<close>

definition or_zero :: "Stats option \<Rightarrow> (Stats \<Rightarrow> int) \<Rightarrow> int" where
  "or_zero st field = (case st of None \<Rightarrow> 0 | Some s \<Rightarrow> if field s = 0 then 0 else field s)"

text \<open>\<open>user?.role === r\<close>\<close>

definition role_is :: "User option \<Rightarrow> string \<Rightarrow> bool" where
  "role_is u r = (case u of None \<Rightarrow> False | Some x \<Rightarrow> role x = r)"

definition orderCards :: "Stats option \<Rightarrow> StatCard list" where
  "orderCards st =
     [\<lparr>title = ''Total Orders'', shown_value = Num (or_zero st total_orders),
       icon = ''cart-outline'', color = ''#007AFF''\<rparr>,
      \<lparr>title = ''Pending Orders'', shown_value = Num (or_zero st pending_orders),
       icon = ''time-outline'', color = ''#FF9500''\<rparr>,
      \<lparr>title = ''Completed Orders'', shown_value = Num (or_zero st completed_orders),
       icon = ''checkmark-circle-outline'', color = ''#34C759''\<rparr>,
      \<lparr>title = ''Total Products'', shown_value = Num (or_zero st total_products),
       icon = ''cube-outline'', color = ''#5856D6''\<rparr>]"

definition adminCards :: "Stats option \<Rightarrow> StatCard list" where
  "adminCards st =
     [\<lparr>title = ''Low Stock Items'', shown_value = Num (or_zero st low_stock_products),
       icon = ''alert-circle-outline'', color = ''#FF3B30''\<rparr>,
      \<lparr>title = ''Total Vendors'', shown_value = Num (or_zero st total_vendors),
       icon = ''people-outline'', color = ''#AF52DE''\<rparr>]"

definition paymentCards :: "(real \<Rightarrow> string) \<Rightarrow> Stats option \<Rightarrow> StatCard list" where
  "paymentCards toFixed2 st =
     [\<lparr>title = ''Pending Payments'', shown_value = Num (or_zero st pending_payments),
       icon = ''wallet-outline'', color = ''#FF9500''\<rparr>,
      \<lparr>title = ''Total Revenue'',
       shown_value = Str (''$'' @ or_else (map_option (\<lambda>s. toFixed2 (total_revenue s)) st) ''0.00''),
       icon = ''trending-up-outline'', color = ''#34C759''\<rparr>]"

definition buyerCards :: "Stats option \<Rightarrow> StatCard list" where
  "buyerCards st =
     [\<lparr>title = ''My Orders'', shown_value = Num (or_zero st total_orders),
       icon = ''cart-outline'', color = ''#007AFF''\<rparr>,
      \<lparr>title = ''Pending Orders'', shown_value = Num (or_zero st pending_orders),
       icon = ''time-outline'', color = ''#FF9500''\<rparr>]"

text \<open>The four conditional fragments of the statistics grid, in the order of the source.\<close>

definition statsGrid :: "(real \<Rightarrow> string) \<Rightarrow> User option \<Rightarrow> Stats option \<Rightarrow> StatCard list" where
  "statsGrid toFixed2 u st =
     (if role_is u ''Admin'' \<or> role_is u ''Sales'' then orderCards st else [])
     @ (if role_is u ''Admin'' then adminCards st else [])
     @ (if role_is u ''Admin'' \<or> role_is u ''Sales'' \<or> role_is u ''Buyer''
        then paymentCards toFixed2 st else [])
     @ (if role_is u ''Buyer'' then buyerCards st else [])"

record request =
  url :: string
  authorization :: string

record dashboard =
  stats :: "Stats option"
  refreshing :: bool
  loading :: bool
  sent :: "request list"
  console :: "string list"

datatype screen = Spinner | Overview "StatCard list"

definition DashboardScreen :: "(real \<Rightarrow> string) \<Rightarrow> User option \<Rightarrow> dashboard \<Rightarrow> screen" where
  "DashboardScreen toFixed2 u d =
     (if loading d then Spinner else Overview (statsGrid toFixed2 u (stats d)))"

text \<open>A \<open>string | null\<close> inside a template literal: \<open>null\<close> prints as the text \<open>null\<close>.\<close>

fun template :: "string option \<Rightarrow> string" where
  "template None = ''null''"
| "template (Some s) = s"

text \<open>
  \<open>fetchStats\<close> with the token of the render it closes over, and the answer of the server
  (\<open>None\<close>: the request was rejected).
\<close>

definition fetchStats :: "string option \<Rightarrow> Stats option \<Rightarrow> dashboard \<Rightarrow> dashboard" where
  "fetchStats tok answer d =
     (let d0 = d\<lparr>sent := sent d @
                 [\<lparr>url = ''/api/dashboard/stats'', authorization = ''Bearer '' @ template tok\<rparr>]\<rparr>;
          d1 = (case answer of
                  Some data \<Rightarrow> d0\<lparr>stats := Some data\<rparr>
                | None \<Rightarrow> d0\<lparr>console := console d0 @ [''Error fetching stats:'']\<rparr>)
      in d1\<lparr>loading := False, refreshing := False\<rparr>)"

text \<open>The effect that runs after mounting and after every change of the token.\<close>

definition tokenEffect :: "string option \<Rightarrow> Stats option \<Rightarrow> dashboard \<Rightarrow> dashboard" where
  "tokenEffect tok answer d = (if truthy tok then fetchStats tok answer d else d)"

definition onRefresh :: "string option \<Rightarrow> Stats option \<Rightarrow> dashboard \<Rightarrow> dashboard" where
  "onRefresh tok answer d = fetchStats tok answer (d\<lparr>refreshing := True\<rparr>)"

text \<open>
  Mounting the screen under a context whose token is \<open>tok\<close>: the initial state
  (\<open>useState(null)\<close>, \<open>useState(false)\<close>, \<open>useState(true)\<close>), then the effect. The state of
  a mounted screen is the token of the current render and the component's own state.
\<close>

definition dashboard_mount :: "string option \<Rightarrow> Stats option \<Rightarrow> string option \<times> dashboard" where
  "dashboard_mount tok answer =
     (tok, tokenEffect tok answer
             \<lparr>stats = None, refreshing = False, loading = True, sent = [], console = []\<rparr>)"

text \<open>
  What can happen to a mounted screen: the context is given a token (the effect runs
  again when it differs from the one before), or the user pulls to refresh, which the
  screen offers only once it has stopped showing the spinner.
\<close>

datatype ui_event = TokenChanged "string option" "Stats option" | PullToRefresh "Stats option"

fun ui_step :: "ui_event \<Rightarrow> string option \<times> dashboard \<Rightarrow> string option \<times> dashboard" where
  "ui_step (TokenChanged tok answer) (old, d) =
     (tok, if tok = old then d else tokenEffect tok answer d)"
| "ui_step (PullToRefresh answer) (tok, d) =
     (tok, if loading d then d else onRefresh tok answer d)"

fun ui_run :: "ui_event list \<Rightarrow> string option \<times> dashboard \<Rightarrow> string option \<times> dashboard" where
  "ui_run [] s = s"
| "ui_run (e # es) s = ui_run es (ui_step e s)"

section \<open>Concrete data\<close>

definition alice :: User where
  "alice = \<lparr>user_id = ''u1'', email = ''alice@x.com'', mobile = ''5551234567'', name = ''Alice'',
            role = ''Admin'', company_id = None, company_name = None\<rparr>"

definition bob :: User where
  "bob = \<lparr>user_id = ''u2'', email = ''bob@x.com'', mobile = ''5557654321'', name = ''Bob'',
          role = ''Buyer'', company_id = None, company_name = None\<rparr>"

definition bob_data :: RegisterData where
  "bob_data = \<lparr>reg_email = ''bob@x.com'', reg_mobile = ''5557654321'', reg_password = ''secret2'',
               reg_name = ''Bob'', reg_role = ''Buyer'', reg_company_name = Some ''Acme''\<rparr>"

text \<open>
  \<open>JSON.stringify\<close> and \<open>JSON.parse\<close> on the one record the examples store, and
  \<open>toFixed(2)\<close> on the one revenue they show.
\<close>

definition alice_json :: string where
  "alice_json = ''{\"id\":\"u1\",\"email\":\"alice@x.com\",\"name\":\"Alice\",\"role\":\"Admin\"}''"

definition stringify_alice :: "User \<Rightarrow> string" where
  "stringify_alice u = alice_json"

definition parse_alice :: "string \<Rightarrow> User parse_result" where
  "parse_alice s = (if s = alice_json then Parsed (Some alice) else SyntaxError)"


definition two_decimals :: "real \<Rightarrow> string" where
  "two_decimals r = ''0.00''"

definition signed_in :: "User client" where
  "signed_in = \<lparr>store = [''auth_token'' \<mapsto> ''abc'', ''user_data'' \<mapsto> alice_json],
                 user = Some alice, token = Some ''abc'', isLoading = False, events = []\<rparr>"

definition some_stats :: Stats where
  "some_stats = \<lparr>total_orders = 12, pending_orders = 3, completed_orders = 9, total_products = 40,
                 low_stock_products = 2, total_vendors = 5, pending_payments = 1,
                 total_revenue = 0\<rparr>"

section \<open>Properties\<close>

lemma truthy_iff: "truthy x \<longleftrightarrow> (\<exists>s. x = Some s \<and> s \<noteq> [])"
  by (cases x) auto

lemma or_else_None [simp]: "or_else None f = f"
  by (simp add: or_else_def)

lemma or_else_Some: "or_else (Some d) f = (if d = [] then f else d)"
  by (simp add: or_else_def)

lemma added_emit [simp]: "added c (emit es c) = es"
  by (simp add: added_def emit_def)

lemma throw_Error_None [simp]: "throw_Error None f = Rejected f"
  by (simp add: throw_Error_def)

lemma login_rejected:
  "login stringify (HttpError detail) w1 w2 l p c =
     (throw_Error detail ''Login failed'',
      emit [HttpPost ''/api/auth/login'' (LoginBody l p)] c)"
  by (simp add: login_def)

lemma login_first_write_throws:
  "login stringify (Response t u) Throws w2 l p c =
     (Rejected ''Login failed'', emit [HttpPost ''/api/auth/login'' (LoginBody l p)] c)"
  by (simp add: login_def)

lemma login_second_write_throws:
  "login stringify (Response t u) Completes Throws l p c =
     (Rejected ''Login failed'',
      c\<lparr>store := (store c)(''auth_token'' \<mapsto> t),
        events := events c @ [HttpPost ''/api/auth/login'' (LoginBody l p), StoreSet ''auth_token'']\<rparr>)"
  by (simp add: login_def emit_def)

lemma login_completes:
  "login stringify (Response t u) Completes Completes l p c =
     (Resolved,
      c\<lparr>store := (store c)(''auth_token'' \<mapsto> t, ''user_data'' \<mapsto> stringify u),
        token := Some t, user := Some u,
        events := events c @ [HttpPost ''/api/auth/login'' (LoginBody l p), StoreSet ''auth_token'',
                              StoreSet ''user_data'', SetToken, SetUser]\<rparr>)"
  by (simp add: login_def emit_def)

lemma register_rejected:
  "register stringify (HttpError detail) w1 w2 data c =
     (throw_Error detail ''Registration failed'',
      emit [HttpPost ''/api/auth/register'' (RegisterBody data)] c)"
  by (simp add: register_def)

lemma register_first_write_throws:
  "register stringify (Response t u) Throws w2 data c =
     (Rejected ''Registration failed'', emit [HttpPost ''/api/auth/register'' (RegisterBody data)] c)"
  by (simp add: register_def)

lemma register_second_write_throws:
  "register stringify (Response t u) Completes Throws data c =
     (Rejected ''Registration failed'',
      c\<lparr>store := (store c)(''auth_token'' \<mapsto> t),
        events := events c @ [HttpPost ''/api/auth/register'' (RegisterBody data), StoreSet ''auth_token'']\<rparr>)"
  by (simp add: register_def emit_def)

lemma register_completes:
  "register stringify (Response t u) Completes Completes data c =
     (Resolved,
      c\<lparr>store := (store c)(''auth_token'' \<mapsto> t, ''user_data'' \<mapsto> stringify u),
        token := Some t, user := Some u,
        events := events c @ [HttpPost ''/api/auth/register'' (RegisterBody data), StoreSet ''auth_token'',
                              StoreSet ''user_data'', SetToken, SetUser]\<rparr>)"
  by (simp add: register_def emit_def)

lemma logout_first_delete_throws:
  "logout Throws d2 c = (Resolved, emit [ConsoleError ''Error logging out:''] c)"
  by (simp add: logout_def)

lemma logout_second_delete_throws:
  "logout Completes Throws c =
     (Resolved,
      c\<lparr>store := (store c)(''auth_token'' := None),
        events := events c @ [StoreDelete ''auth_token'', ConsoleError ''Error logging out:'']\<rparr>)"
  by (simp add: logout_def emit_def)

lemma logout_completes:
  "logout Completes Completes c =
     (Resolved,
      c\<lparr>store := (store c)(''auth_token'' := None, ''user_data'' := None),
        token := None, user := None,
        events := events c @ [StoreDelete ''auth_token'', StoreDelete ''user_data'', SetToken, SetUser]\<rparr>)"
  by (simp add: logout_def emit_def)

lemmas login_simps = login_rejected login_first_write_throws login_second_write_throws login_completes
lemmas register_simps = register_rejected register_first_write_throws register_second_write_throws register_completes
lemmas logout_simps = logout_first_delete_throws logout_second_delete_throws logout_completes

subsection \<open>Signing in\<close>

text \<open>
  C1. When the server answers a \<open>login\<close> or a \<open>register\<close> successfully, the client writes
  the token and the serialized identity record to the secure store and only afterwards
  sets the token and the user in memory (the events added are the request, the two
  writes, then the two setters). When one of the two writes throws, the operation throws
  and the token and the user in memory are what they were: no setter has run.
\<close>

theorem persist_before_session:
  "(case login stringify (Response t u) w1 w2 l p c of (r, c') \<Rightarrow>
      if w1 = Completes \<and> w2 = Completes
      then r = Resolved
         \<and> store c' ''auth_token'' = Some t \<and> store c' ''user_data'' = Some (stringify u)
         \<and> token c' = Some t \<and> user c' = Some u
         \<and> added c c' = [HttpPost ''/api/auth/login'' (LoginBody l p),
                          StoreSet ''auth_token'', StoreSet ''user_data'', SetToken, SetUser]
      else r = Rejected ''Login failed'' \<and> token c' = token c \<and> user c' = user c
         \<and> SetToken \<notin> set (added c c') \<and> SetUser \<notin> set (added c c'))
   \<and>
   (case register stringify (Response t u) w1 w2 data c of (r, c') \<Rightarrow>
      if w1 = Completes \<and> w2 = Completes
      then r = Resolved
         \<and> store c' ''auth_token'' = Some t \<and> store c' ''user_data'' = Some (stringify u)
         \<and> token c' = Some t \<and> user c' = Some u
         \<and> added c c' = [HttpPost ''/api/auth/register'' (RegisterBody data),
                          StoreSet ''auth_token'', StoreSet ''user_data'', SetToken, SetUser]
      else r = Rejected ''Registration failed'' \<and> token c' = token c \<and> user c' = user c
         \<and> SetToken \<notin> set (added c c') \<and> SetUser \<notin> set (added c c'))"
  by (cases w1; cases w2) (simp_all add: login_simps register_simps added_def emit_def)

subsection \<open>The two entries of the secure store\<close>

lemma loadStoredAuth_store [simp]: "store (loadStoredAuth parse r1 r2 c) = store c"
  by (cases r1; cases r2)
     (simp_all add: loadStoredAuth_def emit_def Let_def split: option.splits parse_result.splits)

lemma paired_perform:
  "writes_complete x \<Longrightarrow> paired (store c) \<Longrightarrow> paired (store (perform stringify parse x c))"
proof (cases x)
  case (Login answer w1 w2 l p)
  assume "writes_complete x" "paired (store c)"
  with Login show ?thesis
    by (cases answer) (simp_all add: login_simps paired_def emit_def)
next
  case (Register answer w1 w2 data)
  assume "writes_complete x" "paired (store c)"
  with Register show ?thesis
    by (cases answer) (simp_all add: register_simps paired_def emit_def)
next
  case (Logout d1 d2)
  assume "writes_complete x" "paired (store c)"
  with Logout show ?thesis
    by (simp add: logout_simps paired_def)
next
  case (LoadStoredAuth r1 r2)
  assume "paired (store c)"
  with LoadStoredAuth show ?thesis by simp
qed

lemma paired_perform_all:
  "paired (store c) \<Longrightarrow> list_all writes_complete ops \<Longrightarrow>
   paired (store (perform_all stringify parse ops c))"
proof (induction ops arbitrary: c)
  case Nil
  then show ?case by simp
next
  case (Cons x xs)
  from Cons.prems have "paired (store (perform stringify parse x c))"
    by (simp add: paired_perform)
  with Cons show ?case by simp
qed

text \<open>
  C2 as stated fails. The two entries are written by two calls and deleted by two calls,
  and nothing undoes the first when the second throws: a \<open>login\<close> on an empty store whose
  second write throws leaves \<open>auth_token\<close> alone, and a \<open>logout\<close> of a stored session
  whose second deletion throws leaves \<open>user_data\<close> alone.
\<close>

theorem half_written_pair:
  "\<not> paired (store (perform_all stringify_alice parse_alice
        [Login (Response ''abc'' alice) Completes Throws ''alice@x.com'' ''secret1'']
        (mount Map.empty)))
   \<and> \<not> paired (store (perform_all stringify_alice parse_alice [Logout Completes Throws] signed_in))"
  by (simp add: login_simps logout_simps paired_def mount_def signed_in_def)

text \<open>
  C2, amended. Along every sequence of operations in which no write to and no deletion
  from the secure store throws, started with both entries or with neither, the store
  holds both entries or neither after the sequence (reads may throw, the server may
  refuse). A call that throws is not undone. When the server refuses, or the first write
  or the first deletion throws, the store is left as it was. When the second write of
  \<open>login\<close> or \<open>register\<close> throws after the first completed, \<open>auth_token\<close> holds the new
  token and \<open>user_data\<close> is what it was, so the two entries are both there exactly when
  \<open>user_data\<close> was there before. When the second deletion of \<open>logout\<close> throws after the
  first completed, \<open>auth_token\<close> is gone and \<open>user_data\<close> is what it was, so the store
  holds both or neither exactly when \<open>user_data\<close> was missing before.
\<close>

theorem pair_kept_without_store_faults:
  "(paired (store c) \<and> list_all writes_complete ops
      \<longrightarrow> paired (store (perform_all stringify parse ops c)))
   \<and> store (snd (login stringify (HttpError detail) w1 w2 l p c)) = store c
   \<and> store (snd (login stringify answer Throws w2 l p c)) = store c
   \<and> store (snd (login stringify (Response t u) Completes Throws l p c)) =
       (store c)(''auth_token'' \<mapsto> t)
   \<and> paired (store (snd (login stringify (Response t u) Completes Throws l p c))) =
       (store c ''user_data'' \<noteq> None)
   \<and> store (snd (register stringify (HttpError detail) w1 w2 data c)) = store c
   \<and> store (snd (register stringify answer Throws w2 data c)) = store c
   \<and> store (snd (register stringify (Response t u) Completes Throws data c)) =
       (store c)(''auth_token'' \<mapsto> t)
   \<and> paired (store (snd (register stringify (Response t u) Completes Throws data c))) =
       (store c ''user_data'' \<noteq> None)
   \<and> store (snd (logout Throws d2 c)) = store c
   \<and> store (snd (logout Completes Throws c)) = (store c)(''auth_token'' := None)
   \<and> paired (store (snd (logout Completes Throws c))) = (store c ''user_data'' = None)"
proof -
  have kept: "paired (store c) \<and> list_all writes_complete ops
      \<longrightarrow> paired (store (perform_all stringify parse ops c))"
    by (simp add: paired_perform_all)
  have faults:
    "store (snd (login stringify (HttpError detail) w1 w2 l p c)) = store c"
    "store (snd (login stringify answer Throws w2 l p c)) = store c"
    "store (snd (login stringify (Response t u) Completes Throws l p c)) =
       (store c)(''auth_token'' \<mapsto> t)"
    "store (snd (register stringify (HttpError detail) w1 w2 data c)) = store c"
    "store (snd (register stringify answer Throws w2 data c)) = store c"
    "store (snd (register stringify (Response t u) Completes Throws data c)) =
       (store c)(''auth_token'' \<mapsto> t)"
    "store (snd (logout Throws d2 c)) = store c"
    "store (snd (logout Completes Throws c)) = (store c)(''auth_token'' := None)"
    by (cases answer; simp add: login_simps register_simps logout_simps emit_def)+
  have halves:
    "paired (store (snd (login stringify (Response t u) Completes Throws l p c))) =
       (store c ''user_data'' \<noteq> None)"
    "paired (store (snd (register stringify (Response t u) Completes Throws data c))) =
       (store c ''user_data'' \<noteq> None)"
    "paired (store (snd (logout Completes Throws c))) = (store c ''user_data'' = None)"
    by (simp_all add: login_simps register_simps logout_simps paired_def)
  from kept faults halves show ?thesis by simp
qed

theorem pair_kept_without_store_faults_witness:
  "paired (store (mount Map.empty :: User client))
   \<and> list_all writes_complete
       [LoadStoredAuth Completes Throws,
        Register (Response ''abc'' bob) Completes Completes bob_data,
        Logout Completes Completes,
        Login (HttpError (Some (JStr ''Could not validate credentials''))) Completes Completes
          ''bob@x.com'' ''wrong'']
   \<and> paired (store (perform_all stringify_alice parse_alice
       [LoadStoredAuth Completes Throws,
        Register (Response ''abc'' bob) Completes Completes bob_data,
        Logout Completes Completes,
        Login (HttpError (Some (JStr ''Could not validate credentials''))) Completes Completes
          ''bob@x.com'' ''wrong'']
       (mount Map.empty)))"
proof -
  have h1: "paired (store (mount Map.empty :: User client))"
    by (simp add: paired_def mount_def)
  have h2: "list_all writes_complete
       [LoadStoredAuth Completes Throws,
        Register (Response ''abc'' bob) Completes Completes bob_data,
        Logout Completes Completes,
        Login (HttpError (Some (JStr ''Could not validate credentials''))) Completes Completes
          ''bob@x.com'' ''wrong'']"
    by simp
  have "paired (store (mount Map.empty :: User client))
        \<and> list_all writes_complete
            [LoadStoredAuth Completes Throws,
             Register (Response ''abc'' bob) Completes Completes bob_data,
             Logout Completes Completes,
             Login (HttpError (Some (JStr ''Could not validate credentials''))) Completes Completes
               ''bob@x.com'' ''wrong'']
        \<longrightarrow> paired (store (perform_all stringify_alice parse_alice
            [LoadStoredAuth Completes Throws,
             Register (Response ''abc'' bob) Completes Completes bob_data,
             Logout Completes Completes,
             Login (HttpError (Some (JStr ''Could not validate credentials''))) Completes Completes
               ''bob@x.com'' ''wrong'']
            (mount Map.empty)))"
    by (rule pair_kept_without_store_faults [THEN conjunct1])
  with h1 h2 show ?thesis
    by blast
qed

subsection \<open>The statistics grid\<close>

text \<open>
  C3 as stated fails. The card titled \<open>Pending Orders\<close>, showing \<open>pending_orders\<close>, that
  an Admin sees is also shown to a Buyer, and the Buyer's \<open>My Orders\<close> card shows
  \<open>total_orders\<close>, the counter behind the Admin's \<open>Total Orders\<close>.
\<close>

theorem buyer_sees_order_counters:
  "role bob = ''Buyer''
   \<and> \<lparr>title = ''Pending Orders'', shown_value = Num (pending_orders some_stats),
       icon = ''time-outline'', color = ''#FF9500''\<rparr>
       \<in> set (statsGrid two_decimals (Some bob) (Some some_stats))
          \<inter> set (statsGrid two_decimals (Some alice) (Some some_stats))
   \<and> \<lparr>title = ''My Orders'', shown_value = Num (total_orders some_stats),
       icon = ''cart-outline'', color = ''#007AFF''\<rparr>
       \<in> set (statsGrid two_decimals (Some bob) (Some some_stats))"
  by (simp add: statsGrid_def role_is_def orderCards_def adminCards_def paymentCards_def
        buyerCards_def or_zero_def bob_def alice_def some_stats_def)

text \<open>
  C3, amended. The grid is made of four groups of cards: Admin sees the order and
  product group, the stock and vendor group and the payment group; Sales sees the order
  and product group and the payment group; Buyer sees the payment group and a group of
  its own, \<open>My Orders\<close> and \<open>Pending Orders\<close>, which show the same \<open>total_orders\<close> and
  \<open>pending_orders\<close> counters as the first two cards of the order and product group; any
  other role sees no card, and nobody sees one while the screen is loading. So
  \<open>Low Stock Items\<close> and \<open>Total Vendors\<close> are shown to Admin only, \<open>Completed Orders\<close> and
  \<open>Total Products\<close> to Admin and Sales only, and the other four counters to all three
  roles.
\<close>

theorem cards_by_role:
  "statsGrid toFixed2 u st =
     (if role_is u ''Admin'' then orderCards st @ adminCards st @ paymentCards toFixed2 st
      else if role_is u ''Sales'' then orderCards st @ paymentCards toFixed2 st
      else if role_is u ''Buyer'' then paymentCards toFixed2 st @ buyerCards st
      else [])
   \<and> map title (orderCards st) =
       [''Total Orders'', ''Pending Orders'', ''Completed Orders'', ''Total Products'']
   \<and> map shown_value (orderCards st) =
       [Num (or_zero st total_orders), Num (or_zero st pending_orders),
        Num (or_zero st completed_orders), Num (or_zero st total_products)]
   \<and> map title (adminCards st) = [''Low Stock Items'', ''Total Vendors'']
   \<and> map shown_value (adminCards st) =
       [Num (or_zero st low_stock_products), Num (or_zero st total_vendors)]
   \<and> map title (paymentCards toFixed2 st) = [''Pending Payments'', ''Total Revenue'']
   \<and> map title (buyerCards st) = [''My Orders'', ''Pending Orders'']
   \<and> map shown_value (buyerCards st) =
       [Num (or_zero st total_orders), Num (or_zero st pending_orders)]
   \<and> DashboardScreen toFixed2 u d =
       (if loading d then Spinner else Overview (statsGrid toFixed2 u (stats d)))"
  by (cases u)
     (simp_all add: statsGrid_def role_is_def orderCards_def adminCards_def paymentCards_def
        buyerCards_def DashboardScreen_def)

subsection \<open>Restoring the session\<close>



subsection \<open>Signing out\<close>

text \<open>
  C5 as stated fails. When the first deletion of \<open>logout\<close> throws, the error is swallowed
  with both entries still stored, and the restore after a restart adopts them again.
\<close>

theorem failed_logout_session_survives:
  "token (loadStoredAuth parse_alice Completes Completes
            (restart (snd (logout Throws Completes signed_in)))) = Some ''abc''
   \<and> user (loadStoredAuth parse_alice Completes Completes
            (restart (snd (logout Throws Completes signed_in)))) = Some alice"
  by (simp add: logout_simps loadStoredAuth_def JSON_parse_def restart_def mount_def emit_def
        signed_in_def parse_alice_def alice_json_def Let_def)

text \<open>
  C5, amended. From every client state, a \<open>logout\<close> whose two deletions complete leaves
  both keys absent, and the session restore that follows, after a restart or at once and
  whatever its reads do, ends with the token and the user \<open>null\<close>.
\<close>

theorem logout_then_restore:
  "(let c1 = snd (logout Completes Completes c);
        c2 = loadStoredAuth parse r1 r2 (restart c1);
        c3 = loadStoredAuth parse r1 r2 c1
    in store c1 ''auth_token'' = None \<and> store c1 ''user_data'' = None
     \<and> token c2 = None \<and> user c2 = None
     \<and> token c3 = None \<and> user c3 = None)"
  by (cases r1; cases r2)
     (simp_all add: logout_simps loadStoredAuth_def restart_def mount_def emit_def Let_def)

text \<open>
  C6 as stated fails. A \<open>logout\<close> whose first deletion throws ends with the token in
  memory and in the store, not with the cleared state; and a second \<open>logout\<close> after it,
  whose deletions complete, ends in another state than the first did.
\<close>

theorem failed_logout_keeps_session:
  "token (snd (logout Throws Completes signed_in)) = Some ''abc''
   \<and> store (snd (logout Throws Completes signed_in)) ''auth_token'' = Some ''abc''
   \<and> token (snd (logout Completes Completes (snd (logout Throws Completes signed_in)))) = None"
  by (simp add: logout_simps emit_def signed_in_def)

text \<open>
  C6, amended. \<open>logout\<close> never throws, called once or twice, whatever is stored. When its
  two deletions complete it deletes both entries and then clears the token and the user,
  in this order; a second \<open>logout\<close> whose deletions complete leaves the store, the token
  and the user as the first left them: both entries absent, token and user \<open>null\<close>.
\<close>

theorem logout_idempotent:
  "fst (logout d1 d2 c) = Resolved
   \<and> fst (logout d3 d4 (snd (logout d1 d2 c))) = Resolved
   \<and> (let c1 = snd (logout Completes Completes c);
          c2 = snd (logout Completes Completes c1)
      in store c1 ''auth_token'' = None \<and> store c1 ''user_data'' = None
       \<and> token c1 = None \<and> user c1 = None
       \<and> added c c1 = [StoreDelete ''auth_token'', StoreDelete ''user_data'', SetToken, SetUser]
       \<and> store c2 = store c1 \<and> token c2 = token c1 \<and> user c2 = user c1
       \<and> isLoading c2 = isLoading c1)"
  by (cases d1; cases d2; cases d3; cases d4)
     (simp_all add: logout_simps emit_def added_def Let_def)

text \<open>
  C9. \<open>logout\<close> never throws. When one of its two deletions throws, the error is caught
  and logged (the last event is the console line) and the token and the user in memory
  are what they were: no setter has run. The two setters run only after both deletions
  have completed.
\<close>

theorem logout_never_throws:
  "(case logout d1 d2 c of (r, c') \<Rightarrow>
      r = Resolved
      \<and> (if d1 = Completes \<and> d2 = Completes
         then token c' = None \<and> user c' = None
            \<and> added c c' = [StoreDelete ''auth_token'', StoreDelete ''user_data'', SetToken, SetUser]
         else token c' = token c \<and> user c' = user c
            \<and> last (added c c') = ConsoleError ''Error logging out:''
            \<and> SetToken \<notin> set (added c c') \<and> SetUser \<notin> set (added c c')))"
  by (cases d1; cases d2) (simp_all add: logout_simps added_def emit_def)

subsection \<open>Failed calls\<close>



subsection \<open>The statistics request\<close>

text \<open>
  C8 as stated fails. A screen mounted with a token stops showing the spinner after its
  first request; when the context then loses the token, the effect sends nothing, but a
  pull to refresh sends the request all the same, with the header \<open>Bearer null\<close>.
\<close>

theorem refresh_without_token:
  "fst (ui_run [TokenChanged None None, PullToRefresh None]
          (dashboard_mount (Some ''abc'') (Some some_stats))) = None
   \<and> map authorization
       (sent (snd (ui_run [TokenChanged None None]
                     (dashboard_mount (Some ''abc'') (Some some_stats))))) = [''Bearer abc'']
   \<and> map authorization
       (sent (snd (ui_run [TokenChanged None None, PullToRefresh None]
                     (dashboard_mount (Some ''abc'') (Some some_stats)))))
     = [''Bearer abc'', ''Bearer null'']"
  by (simp add: tokenEffect_def onRefresh_def fetchStats_def dashboard_mount_def)

text \<open>
  C8, amended. Every statistics request carries the header value \<open>Bearer\<close>, a space and
  the token of the current render (the text \<open>null\<close> when there is none). The request sent
  on mounting and on a change of the token is sent only when the token is present and not
  empty; a pull to refresh, offered once the spinner is gone, sends the request whatever
  the token is.
\<close>

theorem stats_request_bearer:
  "sent (fetchStats tok answer d) =
      sent d @ [\<lparr>url = ''/api/dashboard/stats'', authorization = ''Bearer '' @ template tok\<rparr>]
   \<and> template (Some t) = t
   \<and> sent (snd (dashboard_mount tok answer)) =
      (if truthy tok
       then [\<lparr>url = ''/api/dashboard/stats'', authorization = ''Bearer '' @ template tok\<rparr>]
       else [])
   \<and> sent (snd (ui_step (TokenChanged tok answer) (old, d))) =
      (if tok \<noteq> old \<and> truthy tok
       then sent d @
              [\<lparr>url = ''/api/dashboard/stats'', authorization = ''Bearer '' @ template tok\<rparr>]
       else sent d)
   \<and> sent (snd (ui_step (PullToRefresh answer) (tok, d))) =
      (if loading d then sent d
       else sent d @
              [\<lparr>url = ''/api/dashboard/stats'', authorization = ''Bearer '' @ template tok\<rparr>])"
  by (cases answer)
     (simp_all add: fetchStats_def tokenEffect_def onRefresh_def dashboard_mount_def)

subsection \<open>The hook\<close>

text \<open>
  C10. \<open>useAuth\<close> called with no provider above the caller throws; it returns the auth
  API exactly when there is a provider, and then the value of the nearest one.
\<close>

theorem useAuth_needs_provider:
  "useAuth [] = Inl ''useAuth must be used within an AuthProvider''
   \<and> useAuth (v # rest) = Inr v
   \<and> (\<exists>api. useAuth providers = Inr api) = (providers \<noteq> [])"
  by (cases providers) (simp_all add: useAuth_def useContext_def)

end
